theory Spec2Isabelle
  imports Complex_Main "HOL-Library.Char_ord" "HOL-Library.List_Lexorder"
begin

section \<open>JavaScript numbers\<close>

text \<open>
  A JavaScript number is an IEEE 754 binary64 value: a finite double, one of the two
  infinities, or NaN. The two zeros are not told apart: the handlers below feed no
  zero into a division or into the second argument of \<open>Math.atan2\<close> whose sign could
  be negative, so the sign of a zero is never observed.
\<close>

datatype number = Num real | PosInf | NegInf | NaN

text \<open>
  Rounding of a real result to the nearest double, ties to the even significand:
  53 bits of precision, exponents from -1022 (below which the spacing stays that
  of the subnormals) to 1023, and overflow to infinity.
\<close>

definition round_even :: "real \<Rightarrow> int" where
  "round_even q =
     (let f = \<lfloor>q\<rfloor>; r = q - of_int f
      in if r < 1 / 2 then f
         else if 1 / 2 < r then f + 1
         else if even f then f else f + 1)"

definition spacing :: "real \<Rightarrow> real" where
  "spacing x = 2 powr (of_int (max (- 1022) \<lfloor>log 2 \<bar>x\<bar>\<rfloor>) - 52)"

definition rd :: "real \<Rightarrow> number" where
  "rd x =
     (if x = 0 then Num 0
      else let y = spacing x * of_int (round_even (x / spacing x))
           in if 2 ^ 1024 \<le> \<bar>y\<bar> then (if 0 < x then PosInf else NegInf) else Num y)"

text \<open>The sign of a number that is not NaN, and the infinity of a sign.\<close>

definition sign_of :: "number \<Rightarrow> real" where
  "sign_of x = (case x of Num a \<Rightarrow> sgn a | PosInf \<Rightarrow> 1 | NegInf \<Rightarrow> - 1 | NaN \<Rightarrow> 0)"

definition inf_of :: "real \<Rightarrow> number" where
  "inf_of s = (if 0 < s then PosInf else NegInf)"

text \<open>The operators \<open>*\<close>, \<open>/\<close>, \<open>-\<close>, \<open>+\<close> and \<open><=\<close> on numbers.\<close>

definition js_mul :: "number \<Rightarrow> number \<Rightarrow> number" where
  "js_mul x y =
     (if x = NaN \<or> y = NaN then NaN
      else case (x, y) of
        (Num a, Num b) \<Rightarrow> rd (a * b)
      | _ \<Rightarrow> if sign_of x * sign_of y = 0 then NaN else inf_of (sign_of x * sign_of y))"

definition js_div :: "number \<Rightarrow> number \<Rightarrow> number" where
  "js_div x y =
     (if x = NaN \<or> y = NaN then NaN
      else case (x, y) of
        (Num a, Num b) \<Rightarrow>
          (if b = 0 then (if a = 0 then NaN else inf_of (sgn a)) else rd (a / b))
      | (Num a, _) \<Rightarrow> Num 0
      | (_, Num b) \<Rightarrow> inf_of (sign_of x * (if b < 0 then - 1 else 1))
      | _ \<Rightarrow> NaN)"

definition js_sub :: "number \<Rightarrow> number \<Rightarrow> number" where
  "js_sub x y =
     (if x = NaN \<or> y = NaN then NaN
      else case (x, y) of
        (Num a, Num b) \<Rightarrow> rd (a - b)
      | (Num a, _) \<Rightarrow> inf_of (- sign_of y)
      | (_, Num b) \<Rightarrow> x
      | _ \<Rightarrow> if x = y then NaN else x)"

definition js_add :: "number \<Rightarrow> number \<Rightarrow> number" where
  "js_add x y =
     (if x = NaN \<or> y = NaN then NaN
      else case (x, y) of
        (Num a, Num b) \<Rightarrow> rd (a + b)
      | (Num a, _) \<Rightarrow> y
      | (_, Num b) \<Rightarrow> x
      | _ \<Rightarrow> if x = y then x else NaN)"

definition js_le :: "number \<Rightarrow> number \<Rightarrow> bool" where
  "js_le x y =
     (case (x, y) of
        (NaN, _) \<Rightarrow> False
      | (_, NaN) \<Rightarrow> False
      | (Num a, Num b) \<Rightarrow> a \<le> b
      | (NegInf, _) \<Rightarrow> True
      | (_, PosInf) \<Rightarrow> True
      | _ \<Rightarrow> False)"

text \<open>
  \<open>Math.PI\<close> is the double nearest to \<open>\<pi>\<close>. \<open>Math.sqrt\<close> is the correctly rounded
  square root. \<open>Math.sin\<close>, \<open>Math.cos\<close> and \<open>Math.atan2\<close> are approximations that
  the language leaves to the engine: an engine is given by what it returns for finite
  arguments. For the other arguments the language fixes the result: the sine and
  cosine of an infinity are NaN, and \<open>Math.atan2\<close> of infinities is the double
  nearest to the limit angle.
\<close>

definition Math_PI :: real where
  "Math_PI = 884279719003555 / 281474976710656"

record engine =
  engine_sin :: "real \<Rightarrow> real"
  engine_cos :: "real \<Rightarrow> real"
  engine_atan2 :: "real \<Rightarrow> real \<Rightarrow> real"

definition js_sqrt :: "number \<Rightarrow> number" where
  "js_sqrt x =
     (case x of
        Num a \<Rightarrow> (if a < 0 then NaN else rd (sqrt a))
      | PosInf \<Rightarrow> PosInf
      | NegInf \<Rightarrow> NaN
      | NaN \<Rightarrow> NaN)"

definition js_sin :: "engine \<Rightarrow> number \<Rightarrow> number" where
  "js_sin e x = (case x of Num a \<Rightarrow> Num (engine_sin e a) | _ \<Rightarrow> NaN)"

definition js_cos :: "engine \<Rightarrow> number \<Rightarrow> number" where
  "js_cos e x = (case x of Num a \<Rightarrow> Num (engine_cos e a) | _ \<Rightarrow> NaN)"

definition js_atan2 :: "engine \<Rightarrow> number \<Rightarrow> number \<Rightarrow> number" where
  "js_atan2 e y x =
     (if y = NaN \<or> x = NaN then NaN
      else case (y, x) of
        (Num a, Num b) \<Rightarrow> Num (engine_atan2 e a b)
      | (Num a, PosInf) \<Rightarrow> Num 0
      | (Num a, NegInf) \<Rightarrow> (if a < 0 then rd (- pi) else rd pi)
      | (PosInf, Num b) \<Rightarrow> rd (pi / 2)
      | (NegInf, Num b) \<Rightarrow> rd (- (pi / 2))
      | (PosInf, PosInf) \<Rightarrow> rd (pi / 4)
      | (PosInf, NegInf) \<Rightarrow> rd (3 * pi / 4)
      | (NegInf, PosInf) \<Rightarrow> rd (- (pi / 4))
      | (NegInf, NegInf) \<Rightarrow> rd (- (3 * pi / 4)))"

text \<open>
  The real function that \<open>Math.atan2\<close> approximates: the angle of the point
  \<open>(x, y)\<close> in \<open>(-\<pi>, \<pi>]\<close>, with \<open>atan2 0 0 = 0\<close>; and the engine that returns
  the real functions themselves.
\<close>

definition atan2 :: "real \<Rightarrow> real \<Rightarrow> real" where
  "atan2 y x =
     (if 0 < x then arctan (y / x)
      else if x < 0 then (if 0 \<le> y then arctan (y / x) + pi else arctan (y / x) - pi)
      else if 0 < y then pi / 2
      else if y < 0 then - (pi / 2)
      else 0)"


text \<open>
  An engine is accurate to \<open>\<eta>\<close> when its sine is within the relative error \<open>\<eta>\<close> on
  \<open>[-1, 1]\<close>, its cosine stays within \<open>[-1, 1]\<close>, and its \<open>atan2\<close> is within the
  relative error \<open>\<eta>\<close> in the first quadrant.
\<close>

definition accurate :: "real \<Rightarrow> engine \<Rightarrow> bool" where
  "accurate \<eta> e =
     ((\<forall>x. \<bar>x\<bar> \<le> 1 \<longrightarrow> \<bar>engine_sin e x - sin x\<bar> \<le> \<eta> * \<bar>sin x\<bar>)
      \<and> (\<forall>x. \<bar>engine_cos e x\<bar> \<le> 1)
      \<and> (\<forall>y x. 0 \<le> y \<longrightarrow> 0 < x \<longrightarrow>
            \<bar>engine_atan2 e y x - atan2 y x\<bar> \<le> \<eta> * \<bar>atan2 y x\<bar>))"

section \<open>Geofence validator (components/attendance/geofence-validator.tsx)\<close>

text \<open>\<open>{ lat: number; lng: number }\<close> and \<open>{ lat; lng; radius }\<close>.\<close>

record coord =
  lat :: number
  lng :: number

record work_location = coord +
  radius :: number

text \<open>
  \<open>calculateDistance(lat1, lng1, lat2, lng2)\<close>, lines 34-45, on the engine \<open>e\<close>.
\<close>

definition calculateDistance ::
  "engine \<Rightarrow> number \<Rightarrow> number \<Rightarrow> number \<Rightarrow> number \<Rightarrow> number" where
  "calculateDistance e lat1 lng1 lat2 lng2 =
     (let R = Num 6371000;
          phi1 = js_div (js_mul lat1 (Num Math_PI)) (Num 180);
          phi2 = js_div (js_mul lat2 (Num Math_PI)) (Num 180);
          dphi = js_div (js_mul (js_sub lat2 lat1) (Num Math_PI)) (Num 180);
          dlambda = js_div (js_mul (js_sub lng2 lng1) (Num Math_PI)) (Num 180);
          a = js_add
                (js_mul (js_sin e (js_div dphi (Num 2))) (js_sin e (js_div dphi (Num 2))))
                (js_mul
                  (js_mul (js_mul (js_cos e phi1) (js_cos e phi2))
                     (js_sin e (js_div dlambda (Num 2))))
                  (js_sin e (js_div dlambda (Num 2))));
          c = js_mul (Num 2) (js_atan2 e (js_sqrt a) (js_sqrt (js_sub (Num 1) a)))
      in js_mul R c)"

text \<open>
  The haversine distance as the specification words it, on real numbers: latitudes
  in radians, the differences of latitude and longitude in radians,
  \<open>a = sin\<^sup>2(\<Delta>\<phi>/2) + cos \<phi>1 \<sqdot> cos \<phi>2 \<sqdot> sin\<^sup>2(\<Delta>\<lambda>/2)\<close>, \<open>c = 2 \<sqdot> atan2(\<surd>a, \<surd>(1 - a))\<close>,
  distance \<open>R \<sqdot> c\<close> with Earth radius \<open>R = 6,371,000\<close> metres.
\<close>

definition radians :: "real \<Rightarrow> real" where
  "radians d = d * pi / 180"

definition haversine_spec :: "real \<Rightarrow> real \<Rightarrow> real \<Rightarrow> real \<Rightarrow> real" where
  "haversine_spec lat1 lng1 lat2 lng2 =
     6371000 * (2 * atan2
       (sqrt ((sin ((radians lat2 - radians lat1) / 2))\<^sup>2
              + cos (radians lat1) * cos (radians lat2)
                * (sin ((radians lng2 - radians lng1) / 2))\<^sup>2))
       (sqrt (1 - ((sin ((radians lat2 - radians lat1) / 2))\<^sup>2
              + cos (radians lat1) * cos (radians lat2)
                * (sin ((radians lng2 - radians lng1) / 2))\<^sup>2))))"

text \<open>
  The component's state: the two \<open>useState\<close> cells, both initially \<open>null\<close>, and the
  sequence of arguments with which the caller's \<open>onValidationChange\<close> has been invoked
  (oldest first).
\<close>

record validator_state =
  isWithinGeofence :: "bool option"
  distance :: "number option"
  validation_calls :: "bool list"

definition validator_init :: validator_state where
  "validator_init = \<lparr>isWithinGeofence = None, distance = None, validation_calls = []\<rparr>"

text \<open>One run of the \<open>useEffect\<close> body, lines 18-32.\<close>

definition validation_effect ::
  "engine \<Rightarrow> coord option \<Rightarrow> work_location \<Rightarrow> validator_state \<Rightarrow> validator_state" where
  "validation_effect e userLocation workLocation s =
     (case userLocation of
        None \<Rightarrow> s
      | Some u \<Rightarrow>
          (let calculatedDistance =
                 calculateDistance e (lat u) (lng u) (lat workLocation) (lng workLocation);
               isValid = js_le calculatedDistance (radius workLocation)
           in s\<lparr>distance := Some calculatedDistance,
                isWithinGeofence := Some isValid,
                validation_calls := validation_calls s @ [isValid]\<rparr>))"

text \<open>
  The effect re-runs on every change of its dependencies; a sequence of such updates
  is folded over the state.
\<close>

fun run_effects ::
  "engine \<Rightarrow> (coord option \<times> work_location) list \<Rightarrow> validator_state \<Rightarrow> validator_state" where
  "run_effects e [] s = s"
| "run_effects e ((u, w) # us) s = run_effects e us (validation_effect e u w s)"

text \<open>
  What the component renders, lines 54-106: the waiting card when the location is
  absent; otherwise the verification card with its status badge (green when
  \<open>isWithinGeofence\<close> is truthy, red otherwise), the distance row when a distance is
  stored, and the allowed radius.
\<close>

datatype badge = WithinWorkArea | OutsideWorkArea

datatype validator_view =
    GettingLocation
  | LocationVerification badge "number option" number

definition render_validator ::
  "coord option \<Rightarrow> work_location \<Rightarrow> validator_state \<Rightarrow> validator_view" where
  "render_validator userLocation workLocation s =
     (case userLocation of
        None \<Rightarrow> GettingLocation
      | Some u \<Rightarrow>
          LocationVerification
            (if isWithinGeofence s = Some True then WithinWorkArea else OutsideWorkArea)
            (distance s) (radius workLocation))"

text \<open>The verdict the caller holds: the argument of the latest callback invocation.\<close>

definition last_verdict :: "validator_state \<Rightarrow> bool option" where
  "last_verdict s =
     (if validation_calls s = [] then None else Some (last (validation_calls s)))"

subsection \<open>A sample engine\<close>

text \<open>
  An engine that returns, at the four arguments met in the run between the points
  (0.08, 0) and (-0.08, 180), the doubles nearest to the sine and the cosine there,
  and the real functions elsewhere.
\<close>

definition table_engine :: engine where
  "table_engine =
     \<lparr>engine_sin = (\<lambda>x. if x = - (6439128407179665 / 4611686018427387904)
                          then - (1609781578736119 / 1152921504606846976)
                        else if x = 884279719003555 / 562949953421312 then 1
                        else sin x),
      engine_cos = (\<lambda>x. if x = 6439128407179665 / 4611686018427387904
                             \<or> x = - (6439128407179665 / 4611686018427387904)
                          then 4503595237371535 / 4503599627370496
                        else cos x),
      engine_atan2 = atan2\<rparr>"

section \<open>Selfie and location capture (components/attendance/selfie-capture.tsx)\<close>

text \<open>
  A \<open>MediaStream\<close> is the list of its tracks. The session state is the five
  \<open>useState\<close> cells and \<open>streamRef.current\<close>; \<open>events\<close> records, oldest first, what
  the component did to the outside: a camera stream that \<open>getUserMedia\<close> handed
  over, the coordinate a location request resolved to, a frame drawn and encoded,
  \<open>track.stop()\<close> on a track, and the calls of the caller's \<open>onSuccess\<close> and
  \<open>onClose\<close>.
\<close>

type_synonym media_stream = "nat list"

datatype capture_event =
    StreamAcquired media_stream
  | LocationResolved coord
  | FrameRasterized string
  | TrackStopped nat
  | OnSuccess string coord
  | OnClose

record capture_state =
  isCapturing :: bool
  capturedImage :: "string option"
  isProcessing :: bool
  location :: "coord option"
  error :: "string option"
  streamRef :: "media_stream option"
  events :: "capture_event list"

definition capture_init :: capture_state where
  "capture_init =
     \<lparr>isCapturing = False, capturedImage = None, isProcessing = False, location = None,
      error = None, streamRef = None, events = []\<rparr>"

text \<open>
  The device and the network answer from outside; each answer is an argument of the
  handler that awaits it. \<open>getUserMedia\<close> rejects or yields a stream.
\<close>

datatype camera_answer = CameraRejected | CameraStream media_stream

text \<open>
  \<open>startCamera\<close>, lines 30-50. \<open>videoMounted\<close> says whether \<open>videoRef.current\<close> is
  set when the stream arrives; the \<open>video\<close> element is rendered only while
  \<open>isCapturing\<close> holds (line 212). A stream that arrives while it is not set is
  kept nowhere.
\<close>

definition startCamera :: "camera_answer \<Rightarrow> bool \<Rightarrow> capture_state \<Rightarrow> capture_state" where
  "startCamera answer videoMounted s =
     (let s1 = s\<lparr>error := None\<rparr>
      in case answer of
           CameraStream stream \<Rightarrow>
             (let s2 = s1\<lparr>events := events s1 @ [StreamAcquired stream]\<rparr>
              in if videoMounted then s2\<lparr>streamRef := Some stream, isCapturing := True\<rparr>
                 else s2)
         | CameraRejected \<Rightarrow>
             s1\<lparr>error := Some ''Camera access denied. Please allow camera permissions.''\<rparr>)"

text \<open>\<open>stopCamera\<close>, lines 52-58.\<close>

definition stopCamera :: "capture_state \<Rightarrow> capture_state" where
  "stopCamera s =
     (case streamRef s of
        Some stream \<Rightarrow>
          s\<lparr>events := events s @ map TrackStopped stream, streamRef := None\<rparr>
      | None \<Rightarrow> s)\<lparr>isCapturing := False\<rparr>"

text \<open>
  \<open>getCurrentLocation\<close>, lines 60-80: the browser has no geolocation, or the request
  ends in its error callback (denied, timed out after 10 seconds, unavailable), or it
  delivers a position.
\<close>

datatype geolocation_answer = NoGeolocation | PositionError | Position number number

definition getCurrentLocation :: "geolocation_answer \<Rightarrow> string + coord" where
  "getCurrentLocation answer =
     (case answer of
        NoGeolocation \<Rightarrow> Inl ''Geolocation is not supported''
      | PositionError \<Rightarrow> Inl ''Location access denied''
      | Position latitude longitude \<Rightarrow> Inr \<lparr>lat = latitude, lng = longitude\<rparr>)"

text \<open>
  \<open>capturePhoto\<close>, lines 82-108. \<open>refsMounted\<close> says whether both \<open>videoRef.current\<close>
  and \<open>canvasRef.current\<close> are set when the handler starts. What the canvas does after
  the location has arrived is its answer: one of the statements throws (which the
  handler catches; the \<open>video\<close> element is read again there, and reading the size of
  one that has been unmounted meanwhile throws), \<open>getContext("2d")\<close> yields no
  context, or the frame is drawn and \<open>toDataURL\<close> returns its data URL.
\<close>

datatype canvas_answer = CanvasThrows | NoContext | Frame string

definition capturePhoto ::
  "bool \<Rightarrow> geolocation_answer \<Rightarrow> canvas_answer \<Rightarrow> capture_state \<Rightarrow> capture_state" where
  "capturePhoto refsMounted answer canvas s =
     (if \<not> refsMounted then s
      else case getCurrentLocation answer of
        Inl err \<Rightarrow>
          s\<lparr>error := Some ''Failed to capture photo or get location. Please try again.''\<rparr>
      | Inr currentLocation \<Rightarrow>
          (let s1 = s\<lparr>location := Some currentLocation,
                       events := events s @ [LocationResolved currentLocation]\<rparr>
           in case canvas of
                CanvasThrows \<Rightarrow>
                  s1\<lparr>error :=
                       Some ''Failed to capture photo or get location. Please try again.''\<rparr>
              | NoContext \<Rightarrow> s1
              | Frame imageDataUrl \<Rightarrow>
                  stopCamera (s1\<lparr>capturedImage := Some imageDataUrl,
                                 events := events s1 @ [FrameRasterized imageDataUrl]\<rparr>)))"

text \<open>
  \<open>uploadSelfie\<close>, lines 110-135: the storage service answers with an error or the
  object is stored and its public URL is returned.
\<close>

datatype storage_answer = StorageError | Stored string

definition uploadSelfie :: "storage_answer \<Rightarrow> string + string" where
  "uploadSelfie answer =
     (case answer of
        StorageError \<Rightarrow> Inl ''Failed to upload selfie''
      | Stored publicUrl \<Rightarrow> Inr publicUrl)"

text \<open>
  \<open>confirmCapture\<close>, lines 137-158, in its two halves around the awaited upload: up
  to \<open>setIsProcessing(true)\<close>, keeping the image and the coordinate the call read; and
  from the upload's answer on. \<open>confirmCapture\<close> is the call running through without
  another handler in between.
\<close>

definition confirmCapture_begin ::
  "capture_state \<Rightarrow> ((string \<times> coord) \<times> capture_state) option" where
  "confirmCapture_begin s =
     (case (capturedImage s, location s) of
        (Some img, Some loc) \<Rightarrow> Some ((img, loc), s\<lparr>isProcessing := True\<rparr>)
      | _ \<Rightarrow> None)"

definition confirmCapture_resume ::
  "storage_answer \<Rightarrow> string \<times> coord \<Rightarrow> capture_state \<Rightarrow> capture_state" where
  "confirmCapture_resume answer held s =
     (case uploadSelfie answer of
        Inr selfieUrl \<Rightarrow>
          s\<lparr>events := events s @ [OnSuccess selfieUrl (snd held), OnClose],
            capturedImage := None, location := None\<rparr>
      | Inl err \<Rightarrow>
          s\<lparr>error := Some ''Failed to process selfie. Please try again.''\<rparr>)
     \<lparr>isProcessing := False\<rparr>"

definition confirmCapture :: "storage_answer \<Rightarrow> capture_state \<Rightarrow> capture_state" where
  "confirmCapture answer s =
     (case confirmCapture_begin s of
        None \<Rightarrow> s
      | Some (held, s1) \<Rightarrow> confirmCapture_resume answer held s1)"

text \<open>\<open>retakePhoto\<close>, lines 160-164, and \<open>handleClose\<close>, lines 166-172.\<close>

definition retakePhoto :: "camera_answer \<Rightarrow> bool \<Rightarrow> capture_state \<Rightarrow> capture_state" where
  "retakePhoto answer videoMounted s =
     startCamera answer videoMounted (s\<lparr>capturedImage := None, location := None\<rparr>)"

definition handleClose :: "capture_state \<Rightarrow> capture_state" where
  "handleClose s =
     (let s1 = (stopCamera s)\<lparr>capturedImage := None, location := None, error := None\<rparr>
      in s1\<lparr>events := events s1 @ [OnClose]\<rparr>)"

text \<open>
  What the dialog shows, lines 191-272: the start card when neither the preview nor a
  captured image is there (the idle session), the live preview, the captured image
  awaiting confirmation.
\<close>

definition shows_start_card :: "capture_state \<Rightarrow> bool" where
  "shows_start_card s = (\<not> isCapturing s \<and> capturedImage s = None)"

definition shows_live_preview :: "capture_state \<Rightarrow> bool" where
  "shows_live_preview s = isCapturing s"

definition shows_captured :: "capture_state \<Rightarrow> bool" where
  "shows_captured s = (capturedImage s \<noteq> None)"

text \<open>The tracks on which \<open>stop()\<close> has been invoked, one entry per invocation.\<close>

fun stop_calls :: "capture_event list \<Rightarrow> nat list" where
  "stop_calls [] = []"
| "stop_calls (TrackStopped t # es) = t # stop_calls es"
| "stop_calls (e # es) = stop_calls es"

text \<open>
  The tracks of the streams handed over, and those of them that are still live: a
  track runs, and the camera with it, until \<open>stop()\<close> is invoked on it.
\<close>

fun acquired_tracks :: "capture_event list \<Rightarrow> nat list" where
  "acquired_tracks [] = []"
| "acquired_tracks (StreamAcquired stream # es) = stream @ acquired_tracks es"
| "acquired_tracks (e # es) = acquired_tracks es"

definition live_tracks :: "capture_event list \<Rightarrow> nat list" where
  "live_tracks es = filter (\<lambda>t. t \<notin> set (stop_calls es)) (acquired_tracks es)"

text \<open>
  Whether, in a sequence of events, every rasterized frame comes after a resolved
  location; \<open>resolved\<close> says whether one has been seen already.
\<close>

fun location_precedes_frame :: "bool \<Rightarrow> capture_event list \<Rightarrow> bool" where
  "location_precedes_frame resolved [] = True"
| "location_precedes_frame resolved (LocationResolved c # es) = location_precedes_frame True es"
| "location_precedes_frame resolved (FrameRasterized i # es) =
     (resolved \<and> location_precedes_frame resolved es)"
| "location_precedes_frame resolved (e # es) = location_precedes_frame resolved es"

text \<open>The events a handler added to the log \<open>before\<close>.\<close>

definition added_events :: "capture_state \<Rightarrow> capture_state \<Rightarrow> capture_event list" where
  "added_events before after = drop (length (events before)) (events after)"


section \<open>Attendance recorder (components/attendance/attendance-view.tsx)\<close>

subsection \<open>The attendance table (scripts/001_create_database_schema.sql, lines 38-55)\<close>

text \<open>
  \<open>attendance_status\<close> is the enum of line 9 of the schema. The two location columns
  have the type \<open>POINT\<close>, a pair of \<open>float8\<close> coordinates. A row carries the fields of
  the view's \<open>AttendanceRecord\<close> and the key column \<open>user_id\<close>; the bookkeeping columns
  (\<open>created_at\<close>, \<open>updated_at\<close>, breaks, approval) are not part of the record. The
  \<open>id\<close> column is the primary key, and \<open>UNIQUE(user_id, date)\<close> allows one row for an
  employee and a day.
\<close>

datatype attendance_status = Present | Absent | Late | Early_departure

datatype point = Point number number

record attendance_row =
  row_id :: nat
  user_id :: string
  date :: string
  clock_in :: "string option"
  clock_out :: "string option"
  status :: attendance_status
  selfie_url :: "string option"
  clock_in_location :: "point option"
  clock_out_location :: "point option"
  row_notes :: "string option"

text \<open>
  A request carries the value of a \<open>POINT\<close> column as text, which the database reads
  with the input syntax of the type: \<open>( x , y )\<close> or \<open>x , y\<close>, blanks allowed around
  the parts, where \<open>x\<close> and \<open>y\<close> are written as \<open>float8\<close> values: an optional sign, then
  decimal digits with an optional fraction and an optional exponent, or one of the
  words \<open>NaN\<close>, \<open>Infinity\<close>, \<open>inf\<close> in any case. A finite value is rounded to the
  nearest double; one that is out of range is an error.
\<close>

definition blank :: "char \<Rightarrow> bool" where
  "blank c = (c \<in> set [CHR '' '', CHR 0x09, CHR 0x0A, CHR 0x0D])"

definition is_digit :: "char \<Rightarrow> bool" where
  "is_digit c = (c \<in> set ''0123456789'')"

definition digit_value :: "char \<Rightarrow> nat" where
  "digit_value c = length (takeWhile (\<lambda>d. d \<noteq> c) ''0123456789'')"

definition digits_value :: "string \<Rightarrow> nat" where
  "digits_value ds = fold (\<lambda>c n. 10 * n + digit_value c) ds 0"

text \<open>Whether a text begins with a word, each letter given in its two cases.\<close>

fun begins_with :: "(char \<times> char) list \<Rightarrow> string \<Rightarrow> bool" where
  "begins_with [] t = True"
| "begins_with (p # ps) [] = False"
| "begins_with (p # ps) (c # cs) = ((c = fst p \<or> c = snd p) \<and> begins_with ps cs)"

definition word_inf :: "(char \<times> char) list" where
  "word_inf = [(CHR ''i'', CHR ''I''), (CHR ''n'', CHR ''N''), (CHR ''f'', CHR ''F'')]"

definition word_infinity :: "(char \<times> char) list" where
  "word_infinity =
     word_inf @ [(CHR ''i'', CHR ''I''), (CHR ''n'', CHR ''N''), (CHR ''i'', CHR ''I''),
                 (CHR ''t'', CHR ''T''), (CHR ''y'', CHR ''Y'')]"

definition word_nan :: "(char \<times> char) list" where
  "word_nan = [(CHR ''n'', CHR ''N''), (CHR ''a'', CHR ''A''), (CHR ''n'', CHR ''N'')]"

text \<open>An optional sign: whether it is a minus, and the rest of the text.\<close>

definition sign_in :: "string \<Rightarrow> bool \<times> string" where
  "sign_in t =
     (case t of
        [] \<Rightarrow> (False, t)
      | c # r \<Rightarrow> if c = CHR ''-'' then (True, r) else if c = CHR ''+'' then (False, r)
                 else (False, t))"

text \<open>An optional exponent part: its value, and the rest of the text.\<close>

definition exponent_in :: "string \<Rightarrow> int \<times> string" where
  "exponent_in t =
     (case t of
        [] \<Rightarrow> (0, t)
      | c # r \<Rightarrow>
          if c = CHR ''e'' \<or> c = CHR ''E'' then
            (let (minus, r1) = sign_in r; ds = takeWhile is_digit r1
             in if ds = [] then (0, t)
                else ((if minus then - int (digits_value ds) else int (digits_value ds)),
                      dropWhile is_digit r1))
          else (0, t))"

text \<open>An unsigned decimal number: its value, and the rest of the text.\<close>

definition decimal_in :: "string \<Rightarrow> (real \<times> string) option" where
  "decimal_in t =
     (let whole = takeWhile is_digit t;
          t1 = dropWhile is_digit t;
          (fraction, t2) = (case t1 of
                              [] \<Rightarrow> ([], t1)
                            | c # r \<Rightarrow> if c = CHR ''.''
                                       then (takeWhile is_digit r, dropWhile is_digit r)
                                       else ([], t1));
          (ex, t3) = exponent_in t2
      in if whole = [] \<and> fraction = [] then None
         else Some (real (digits_value (whole @ fraction)) / 10 ^ length fraction
                      * 10 powr of_int ex, t3))"

text \<open>A \<open>float8\<close> at the head of a text, after blanks: its value, and the rest.\<close>

definition float8_in :: "string \<Rightarrow> (number \<times> string) option" where
  "float8_in txt =
     (let (minus, t) = sign_in (dropWhile blank txt)
      in if begins_with word_nan t then Some (NaN, drop 3 t)
         else if begins_with word_infinity t
           then Some (if minus then NegInf else PosInf, drop 8 t)
         else if begins_with word_inf t
           then Some (if minus then NegInf else PosInf, drop 3 t)
         else case decimal_in t of
           None \<Rightarrow> None
         | Some (v, r) \<Rightarrow>
             (case rd (if minus then - v else v) of
                Num y \<Rightarrow> if y = 0 \<and> v \<noteq> 0 then None else Some (Num y, r)
              | _ \<Rightarrow> None))"

text \<open>The input function of the type \<open>POINT\<close>; \<open>None\<close> is its syntax error.\<close>

definition point_in :: "string \<Rightarrow> point option" where
  "point_in txt =
     (let t = dropWhile blank txt;
          (paren, t1) = (case t of
                           [] \<Rightarrow> (False, t)
                         | c # r \<Rightarrow> if c = CHR ''('' then (True, r) else (False, t))
      in case float8_in t1 of
           None \<Rightarrow> None
         | Some (x, t2) \<Rightarrow>
             (case dropWhile blank t2 of
                [] \<Rightarrow> None
              | c # t3 \<Rightarrow>
                  if c = CHR '','' then
                    (case float8_in t3 of
                       None \<Rightarrow> None
                     | Some (y, t4) \<Rightarrow>
                         (let t5 = dropWhile blank t4;
                              t6 = (if paren
                                    then (case t5 of
                                            [] \<Rightarrow> None
                                          | d # r \<Rightarrow> if d = CHR '')'' then Some r else None)
                                    else Some t5)
                          in case t6 of
                               None \<Rightarrow> None
                             | Some r \<Rightarrow>
                                 if dropWhile blank r = [] then Some (Point x y) else None))
                  else None))"

subsection \<open>The requests of the view and what the store answers\<close>

text \<open>
  The columns of the two writes of \<open>handleSelfieSuccess\<close>: those of the \<open>upsert\<close> call,
  lines 89-96, and those of the \<open>update\<close> call, lines 107-110. A location is
  sent as text.
\<close>

record clock_in_columns =
  new_user_id :: string
  new_date :: string
  new_clock_in :: string
  new_status :: attendance_status
  new_selfie_url :: string
  new_clock_in_location :: string

record clock_out_columns =
  new_clock_out :: string
  new_clock_out_location :: string

text \<open>
  The key on which an \<open>upsert\<close> resolves a conflict: the columns named by the
  \<open>onConflict\<close> option of the call, or the primary key when the call names none.
\<close>

datatype conflict_target = OnPrimaryKey | OnUserAndDate

datatype write_request =
    Upsert conflict_target clock_in_columns
  | UpdateById nat clock_out_columns

text \<open>
  What the store answers instead of rows: it does not answer at all, a text is not
  valid for the type of its column, the insert breaks \<open>UNIQUE(user_id, date)\<close>, or
  \<open>single()\<close> found no row.
\<close>

datatype store_error = Unavailable | InvalidText | UniqueViolation | NoRows

text \<open>The default of the \<open>id\<close> column: an identifier no row of the table has.\<close>

definition fresh_id :: "attendance_row list \<Rightarrow> nat" where
  "fresh_id rows = Suc (fold max (map row_id rows) 0)"

text \<open>The row that an insert of the clock-in columns creates, the rest at its defaults.\<close>

definition inserted_row :: "nat \<Rightarrow> clock_in_columns \<Rightarrow> point \<Rightarrow> attendance_row" where
  "inserted_row rid c p =
     \<lparr>row_id = rid, user_id = new_user_id c, date = new_date c,
      clock_in = Some (new_clock_in c), clock_out = None, status = new_status c,
      selfie_url = Some (new_selfie_url c), clock_in_location = Some p,
      clock_out_location = None, row_notes = None\<rparr>"

definition set_clock_in :: "clock_in_columns \<Rightarrow> point \<Rightarrow> attendance_row \<Rightarrow> attendance_row" where
  "set_clock_in c p r =
     r\<lparr>clock_in := Some (new_clock_in c), status := new_status c,
       selfie_url := Some (new_selfie_url c), clock_in_location := Some p\<rparr>"

definition set_clock_out :: "clock_out_columns \<Rightarrow> point \<Rightarrow> attendance_row \<Rightarrow> attendance_row" where
  "set_clock_out c p r = r\<lparr>clock_out := Some (new_clock_out c), clock_out_location := Some p\<rparr>"

text \<open>
  The store behind \<open>supabase.from("attendance")\<close> is a service outside the
  repository; its table is the one of the schema. \<open>reachable\<close> says whether the
  service answers the request; a request that it does not answer, or answers with an
  error, changes nothing.

  \<open>upsert(columns).select().single()\<close>: the location text is read as a \<open>POINT\<close>.
  The request has no \<open>id\<close>, so the new row takes a fresh one and never meets a row
  on the primary key: on that target the request is an insert, which
  \<open>UNIQUE(user_id, date)\<close> refuses when the employee has a row of that date. On the
  target \<open>(user_id, date)\<close> such a row takes the columns of the request and keeps its
  others. The written row is returned.
\<close>

definition store_upsert ::
  "bool \<Rightarrow> conflict_target \<Rightarrow> clock_in_columns \<Rightarrow> attendance_row list
     \<Rightarrow> store_error + (attendance_row \<times> attendance_row list)" where
  "store_upsert reachable target c rows =
     (if \<not> reachable then Inl Unavailable
      else case point_in (new_clock_in_location c) of
        None \<Rightarrow> Inl InvalidText
      | Some p \<Rightarrow>
          (case find (\<lambda>r. user_id r = new_user_id c \<and> date r = new_date c) rows of
             None \<Rightarrow>
               Inr (inserted_row (fresh_id rows) c p,
                    rows @ [inserted_row (fresh_id rows) c p])
           | Some r \<Rightarrow>
               (case target of
                  OnPrimaryKey \<Rightarrow> Inl UniqueViolation
                | OnUserAndDate \<Rightarrow>
                    Inr (set_clock_in c p r,
                         map (\<lambda>x. if user_id x = new_user_id c \<and> date x = new_date c
                                   then set_clock_in c p x else x) rows))))"

text \<open>
  \<open>update(columns).eq("id", id).select().single()\<close>: the location text is read as a
  \<open>POINT\<close>; the row with that id takes the clock-out timestamp and location;
  \<open>single()\<close> is an error when no row matched.
\<close>

definition store_update ::
  "bool \<Rightarrow> nat \<Rightarrow> clock_out_columns \<Rightarrow> attendance_row list
     \<Rightarrow> store_error + (attendance_row \<times> attendance_row list)" where
  "store_update reachable rid c rows =
     (if \<not> reachable then Inl Unavailable
      else case point_in (new_clock_out_location c) of
        None \<Rightarrow> Inl InvalidText
      | Some p \<Rightarrow>
          (case find (\<lambda>r. row_id r = rid) rows of
             None \<Rightarrow> Inl NoRows
           | Some r \<Rightarrow>
               Inr (set_clock_out c p r,
                    map (\<lambda>x. if row_id x = rid then set_clock_out c p x else x) rows)))"

text \<open>
  \<open>select("*").eq("user_id", uid).order("date", descending).limit(30)\<close>; an
  unanswered request yields no data.
\<close>

definition store_select ::
  "bool \<Rightarrow> string \<Rightarrow> attendance_row list \<Rightarrow> attendance_row list option" where
  "store_select reachable uid rows =
     (if \<not> reachable then None
      else Some (take 30 (rev (sort_key date (filter (\<lambda>r. user_id r = uid) rows)))))"

subsection \<open>The view\<close>

datatype capture_action = Clock_in | Clock_out

text \<open>
  The table together with the view's state: \<open>db\<close> is the persisted table, \<open>sent\<close> the
  write requests the view has sent to the store, oldest first, and the other fields
  are the \<open>useState\<close> cells of \<open>AttendanceView\<close>.
\<close>

record attendance_system =
  db :: "attendance_row list"
  sent :: "write_request list"
  attendanceRecords :: "attendance_row list"
  todayRecord :: "attendance_row option"
  loading :: bool
  showSelfieCapture :: bool
  captureAction :: capture_action

text \<open>\<open>new Date().toISOString().split("T")[0]\<close>\<close>

definition iso_date :: "string \<Rightarrow> string" where
  "iso_date stamp = takeWhile (\<lambda>c. c \<noteq> CHR ''T'') stamp"

text \<open>
  What a handler meets outside while it runs: whether the store answers its write and
  its read, the instants that its calls of \<open>new Date()\<close> read, as ISO strings, in
  the order of the calls in \<open>handleSelfieSuccess\<close> (for \<open>today\<close>, for \<open>now\<close>) and in
  \<open>loadAttendanceData\<close>, and the text that the language gives a number inside a
  template literal.
\<close>

record surroundings =
  writable :: bool
  readable :: bool
  instant_today :: string
  instant_now :: string
  instant_load :: string
  number_text :: "number \<Rightarrow> string"

text \<open>\<open>loadAttendanceData\<close>, lines 48-68, for the profile \<open>pid\<close>.\<close>

definition loadAttendanceData ::
  "surroundings \<Rightarrow> string \<Rightarrow> attendance_system \<Rightarrow> attendance_system" where
  "loadAttendanceData w pid s =
     (let records = store_select (readable w) pid (db s);
          today = iso_date (instant_load w);
          todayRec = (case records of
                        None \<Rightarrow> None
                      | Some rs \<Rightarrow> find (\<lambda>r. date r = today) rs)
      in s\<lparr>attendanceRecords := (case records of None \<Rightarrow> [] | Some rs \<Rightarrow> rs),
           todayRecord := todayRec,
           loading := False\<rparr>)"

text \<open>\<open>handleClockIn\<close> and \<open>handleClockOut\<close>, lines 70-78.\<close>

definition handleClockIn :: "attendance_system \<Rightarrow> attendance_system" where
  "handleClockIn s = s\<lparr>captureAction := Clock_in, showSelfieCapture := True\<rparr>"

definition handleClockOut :: "attendance_system \<Rightarrow> attendance_system" where
  "handleClockOut s = s\<lparr>captureAction := Clock_out, showSelfieCapture := True\<rparr>"

text \<open>
  \<open>handleSelfieSuccess\<close>, lines 80-123. The \<open>upsert\<close> call names no \<open>onConflict\<close>. An
  error of the write is thrown, caught and logged, which leaves the table and the
  view as they were.
\<close>

definition handleSelfieSuccess ::
  "surroundings \<Rightarrow> string \<Rightarrow> string \<Rightarrow> coord \<Rightarrow> attendance_system \<Rightarrow> attendance_system" where
  "handleSelfieSuccess w pid selfieUrl loc s =
     (let today = iso_date (instant_today w);
          now = instant_now w;
          locationPoint =
            ''POINT('' @ number_text w (lng loc) @ '' '' @ number_text w (lat loc) @ '')''
      in if captureAction s = Clock_in then
           (let columns = \<lparr>new_user_id = pid, new_date = today, new_clock_in = now,
                           new_status = Present, new_selfie_url = selfieUrl,
                           new_clock_in_location = locationPoint\<rparr>;
                s1 = s\<lparr>sent := sent s @ [Upsert OnPrimaryKey columns]\<rparr>
            in case store_upsert (writable w) OnPrimaryKey columns (db s) of
                 Inl err \<Rightarrow> s1
               | Inr (data, rows) \<Rightarrow>
                   loadAttendanceData w pid (s1\<lparr>db := rows, todayRecord := Some data\<rparr>))
         else
           (case todayRecord s of
              None \<Rightarrow> s
            | Some held \<Rightarrow>
                (let columns = \<lparr>new_clock_out = now, new_clock_out_location = locationPoint\<rparr>;
                     s1 = s\<lparr>sent := sent s @ [UpdateById (row_id held) columns]\<rparr>
                 in case store_update (writable w) (row_id held) columns (db s) of
                      Inl err \<Rightarrow> s1
                    | Inr (data, rows) \<Rightarrow>
                        loadAttendanceData w pid (s1\<lparr>db := rows, todayRecord := Some data\<rparr>))))"

text \<open>
  The two operations of the recorder: the employee presses the button, the capture
  dialog delivers the selfie URL and the coordinate, and \<open>handleSelfieSuccess\<close> runs.
\<close>

definition clockIn ::
  "surroundings \<Rightarrow> string \<Rightarrow> string \<Rightarrow> coord \<Rightarrow> attendance_system \<Rightarrow> attendance_system" where
  "clockIn w pid selfieUrl loc s = handleSelfieSuccess w pid selfieUrl loc (handleClockIn s)"

definition clockOut ::
  "surroundings \<Rightarrow> string \<Rightarrow> string \<Rightarrow> coord \<Rightarrow> attendance_system \<Rightarrow> attendance_system" where
  "clockOut w pid selfieUrl loc s = handleSelfieSuccess w pid selfieUrl loc (handleClockOut s)"

text \<open>The rows of an employee for a day.\<close>

definition rows_of :: "string \<Rightarrow> string \<Rightarrow> attendance_row list \<Rightarrow> attendance_row list" where
  "rows_of uid day rows = filter (\<lambda>r. user_id r = uid \<and> date r = day) rows"

text \<open>
  A concrete run, used to evaluate the handlers: employee \<open>u1\<close> has one row, of
  1 January 2024, with a clock-in at nine and no clock-out; \<open>nt\<close> is the text the
  language gives a number.
\<close>

definition row_jan1 :: attendance_row where
  "row_jan1 =
     \<lparr>row_id = 1, user_id = ''u1'', date = ''2024-01-01'',
      clock_in = Some ''2024-01-01T09:00:00.000Z'', clock_out = None, status = Present,
      selfie_url = Some ''https://x/first.jpg'',
      clock_in_location = Some (Point (Num (- 74)) (Num 40)),
      clock_out_location = None, row_notes = None\<rparr>"

definition jan1_evening :: "(number \<Rightarrow> string) \<Rightarrow> surroundings" where
  "jan1_evening nt =
     \<lparr>writable = True, readable = True, instant_today = ''2024-01-01T17:00:00.000Z'',
      instant_now = ''2024-01-01T17:00:00.000Z'', instant_load = ''2024-01-01T17:00:00.000Z'',
      number_text = nt\<rparr>"


definition view_opened :: "attendance_row list \<Rightarrow> attendance_system" where
  "view_opened rows =
     \<lparr>db = rows, sent = [], attendanceRecords = [], todayRecord = None, loading = True,
      showSelfieCapture = False, captureAction = Clock_in\<rparr>"

definition office :: coord where
  "office = \<lparr>lat = Num 40, lng = Num (- 74)\<rparr>"

section \<open>Properties of the number model\<close>

subsection \<open>Rounding\<close>

lemma round_even_close: "\<bar>of_int (round_even q) - q\<bar> \<le> 1 / 2"
proof -
  have "of_int \<lfloor>q\<rfloor> \<le> q" "q < of_int \<lfloor>q\<rfloor> + 1" by linarith+
  then show ?thesis
    unfolding round_even_def Let_def by (auto simp: abs_le_iff)
qed






text \<open>
  The rounding of a value whose binade is known: with \<open>2\<^sup>5\<^sup>2 \<le> \<bar>x\<bar> \<sqdot> 2\<^sup>m < 2\<^sup>5\<^sup>3\<close> the
  doubles around \<open>x\<close> are the multiples of \<open>2\<^sup>-\<^sup>m\<close>.
\<close>

lemma rd_eval:
  fixes x y :: real
  assumes m: "m \<le> 1074"
    and lo: "2 ^ 52 / 2 ^ m \<le> \<bar>x\<bar>" and hi: "\<bar>x\<bar> < 2 ^ 53 / 2 ^ m"
    and n: "round_even (x * 2 ^ m) = n" and y: "y = of_int n / 2 ^ m"
  shows "rd x = Num y"
proof -
  define u :: real where "u = 1 / 2 ^ m"
  have upos: "0 < u" by (simp add: u_def)
  have "(0::real) < 2 ^ 52 / 2 ^ m" by simp
  with lo have pos: "0 < \<bar>x\<bar>" by linarith
  then have x0: "x \<noteq> 0" by simp
  have pm: "2 powr real m = (2::real) ^ m" by (simp add: powr_realpow)
  have p52: "2 powr (52 - real m) = (2::real) ^ 52 / 2 ^ m"
    by (simp add: powr_diff pm)
  have p53: "2 powr (52 - real m + 1) = (2::real) ^ 53 / 2 ^ m"
  proof -
    have "52 - real m + 1 = 53 - real m" by simp
    then show ?thesis by (simp add: powr_diff pm)
  qed
  have "\<lfloor>log 2 \<bar>x\<bar>\<rfloor> = 52 - int m"
    using floor_log_eq_powr_iff [of "\<bar>x\<bar>" 2 "52 - int m"] pos lo hi p52 p53 by simp
  moreover have "max (- 1022) (52 - int m) = 52 - int m" using m by simp
  ultimately have "spacing x = 2 powr (of_int (52 - int m) - 52)"
    by (simp add: spacing_def)
  also have "of_int (52 - int m) - 52 = - real m" by simp
  also have "2 powr (- real m) = u" by (simp add: u_def powr_minus_divide pm)
  finally have su: "spacing x = u" .
  have q: "x / u = x * 2 ^ m" by (simp add: u_def)
  have yu: "u * of_int n = y" by (simp add: u_def y)
  have "\<bar>of_int n - x * 2 ^ m\<bar> \<le> 1 / 2"
    using round_even_close [of "x * 2 ^ m"] n by simp
  moreover have "\<bar>x * 2 ^ m\<bar> < 2 ^ 53"
  proof -
    have "\<bar>x\<bar> * 2 ^ m < 2 ^ 53 / 2 ^ m * 2 ^ m"
      using hi by (intro mult_strict_right_mono) simp_all
    then show ?thesis by (simp add: abs_mult)
  qed
  moreover have "(2::real) ^ 53 + 1 / 2 < 2 ^ 54" by simp
  ultimately have nb: "\<bar>real_of_int n\<bar> < 2 ^ 54" by linarith
  have "\<bar>y\<bar> = \<bar>real_of_int n\<bar> / 2 ^ m" by (simp add: y)
  also have "\<dots> \<le> \<bar>real_of_int n\<bar> / 1"
    by (intro divide_left_mono) simp_all
  also have "\<dots> < 2 ^ 54" using nb by simp
  also have "\<dots> < (2 ^ 1024 :: real)" by simp
  finally have fin: "\<not> 2 ^ 1024 \<le> \<bar>y\<bar>" by simp
  show ?thesis
    using x0 fin unfolding rd_def su q n yu Let_def by simp
qed

text \<open>An integer below \<open>2\<^sup>5\<^sup>3\<close> is a double.\<close>

lemma round_even_of_int: "round_even (of_int k) = k"
  by (simp add: round_even_def)

subsection \<open>The operators on finite numbers\<close>

lemma js_mul_Num: "js_mul (Num a) (Num b) = rd (a * b)"
  by (simp add: js_mul_def)


lemma js_sub_Num: "js_sub (Num a) (Num b) = rd (a - b)"
  by (simp add: js_sub_def)

lemma js_add_Num: "js_add (Num a) (Num b) = rd (a + b)"
  by (simp add: js_add_def)





subsection \<open>Bounds on the sine and the arc tangent of small arguments\<close>


lemma sin_near5: "\<bar>sin x - (x - x ^ 3 / 6)\<bar> \<le> \<bar>x\<bar> ^ 5 / 120" for x :: real
proof -
  have "(\<Sum>m<5. sin_coeff m * x ^ m) = (\<Sum>m\<in>{0, 1, 2, 3, 4}. sin_coeff m * x ^ m)"
    by (rule sum.cong) auto
  also have "\<dots> = x - x ^ 3 / 6" by (simp add: sin_coeff_def fact_numeral)
  finally have s: "(\<Sum>m<5. sin_coeff m * x ^ m) = x - x ^ 3 / 6" .
  have f: "inverse (fact 5) * \<bar>x\<bar> ^ 5 = \<bar>x\<bar> ^ 5 / 120"
    by (simp add: fact_numeral)
  have "\<bar>sin x - (\<Sum>m<5. sin_coeff m * x ^ m)\<bar> \<le> inverse (fact 5) * \<bar>x\<bar> ^ 5"
    by (rule Maclaurin_sin_bound)
  then show ?thesis unfolding f s .
qed




section \<open>Properties of the geofence validator\<close>

subsection \<open>The distance of the scenario in double arithmetic\<close>


subsection \<open>A run between two nearly antipodal points\<close>

text \<open>
  The user at (0.08, 0) and a site at (-0.08, 180): the sum under the root is
  rounded to \<open>1 + 2\<^sup>-\<^sup>5\<^sup>2\<close>, so \<open>1 - a\<close> is negative, its root is NaN, and so is the
  distance.
\<close>

lemma antipodal_distance:
  "calculateDistance table_engine (rd 0.08) (Num 0) (rd (- 0.08)) (Num 180) = NaN"
proof -
  have js_div_180: "js_div (Num r) (Num 180) = rd (r / 180)" for r
    by (simp add: js_div_def)
  have js_div_2: "js_div (Num r) (Num 2) = rd (r / 2)" for r
    by (simp add: js_div_def)
  have lat1: "rd 0.08 = Num (5764607523034235 / 72057594037927936)"
    by (rule rd_eval [where m = 56 and n = 5764607523034235])
       (simp_all add: round_even_def Math_PI_def)
  have lat2: "rd (- 0.08) = Num (- (5764607523034235 / 72057594037927936))"
    by (rule rd_eval [where m = 56 and n = "- 5764607523034235"])
       (simp_all add: round_even_def Math_PI_def)
  have m1:
    "js_mul (Num (5764607523034235 / 72057594037927936)) (Num Math_PI)
       = Num (2263756080649101 / 9007199254740992)"
    unfolding js_mul_Num
    by (rule rd_eval [where m = 54 and n = 4527512161298202])
       (simp_all add: round_even_def Math_PI_def)
  have phi1:
    "js_div (Num (2263756080649101 / 9007199254740992)) (Num 180)
       = Num (6439128407179665 / 4611686018427387904)"
    unfolding js_div_180
    by (rule rd_eval [where m = 62 and n = 6439128407179665])
       (simp_all add: round_even_def Math_PI_def)
  have m2:
    "js_mul (Num (- (5764607523034235 / 72057594037927936))) (Num Math_PI)
       = Num (- (2263756080649101 / 9007199254740992))"
    unfolding js_mul_Num
    by (rule rd_eval [where m = 54 and n = "- 4527512161298202"])
       (simp_all add: round_even_def Math_PI_def)
  have phi2:
    "js_div (Num (- (2263756080649101 / 9007199254740992))) (Num 180)
       = Num (- (6439128407179665 / 4611686018427387904))"
    unfolding js_div_180
    by (rule rd_eval [where m = 62 and n = "- 6439128407179665"])
       (simp_all add: round_even_def Math_PI_def)
  have d0:
    "js_sub
       (Num (- (5764607523034235 / 72057594037927936)))
       (Num (5764607523034235 / 72057594037927936))
       = Num (- (5764607523034235 / 36028797018963968))"
    unfolding js_sub_Num
    by (rule rd_eval [where m = 55 and n = "- 5764607523034235"])
       (simp_all add: round_even_def Math_PI_def)
  have d1:
    "js_mul (Num (- (5764607523034235 / 36028797018963968))) (Num Math_PI)
       = Num (- (2263756080649101 / 4503599627370496))"
    unfolding js_mul_Num
    by (rule rd_eval [where m = 53 and n = "- 4527512161298202"])
       (simp_all add: round_even_def Math_PI_def)
  have d2:
    "js_div (Num (- (2263756080649101 / 4503599627370496))) (Num 180)
       = Num (- (6439128407179665 / 2305843009213693952))"
    unfolding js_div_180
    by (rule rd_eval [where m = 61 and n = "- 6439128407179665"])
       (simp_all add: round_even_def Math_PI_def)
  have h:
    "js_div (Num (- (6439128407179665 / 2305843009213693952))) (Num 2)
       = Num (- (6439128407179665 / 4611686018427387904))"
    unfolding js_div_2
    by (rule rd_eval [where m = 62 and n = "- 6439128407179665"])
       (simp_all add: round_even_def Math_PI_def)
  have l0: "js_sub (Num 180) (Num 0) = Num 180"
    unfolding js_sub_Num
    by (rule rd_eval [where m = 45 and n = 6333186975989760])
       (simp_all add: round_even_def Math_PI_def)
  have l1: "js_mul (Num 180) (Num Math_PI) = Num (4974073419394997 / 8796093022208)"
    unfolding js_mul_Num
    by (rule rd_eval [where m = 43 and n = 4974073419394997])
       (simp_all add: round_even_def Math_PI_def)
  have l2:
    "js_div (Num (4974073419394997 / 8796093022208)) (Num 180)
       = Num (884279719003555 / 281474976710656)"
    unfolding js_div_180
    by (rule rd_eval [where m = 51 and n = 7074237752028440])
       (simp_all add: round_even_def Math_PI_def)
  have g:
    "js_div (Num (884279719003555 / 281474976710656)) (Num 2)
       = Num (884279719003555 / 562949953421312)"
    unfolding js_div_2
    by (rule rd_eval [where m = 52 and n = 7074237752028440])
       (simp_all add: round_even_def Math_PI_def)
  have t1:
    "js_mul
       (Num (- (1609781578736119 / 1152921504606846976)))
       (Num (- (1609781578736119 / 1152921504606846976)))
       = Num (4603245307134343 / 2361183241434822606848)"
    unfolding js_mul_Num
    by (rule rd_eval [where m = 71 and n = 4603245307134343])
       (simp_all add: round_even_def Math_PI_def)
  have cc:
    "js_mul
       (Num (4503595237371535 / 4503599627370496))
       (Num (4503595237371535 / 4503599627370496))
       = Num (9007181694753707 / 9007199254740992)"
    unfolding js_mul_Num
    by (rule rd_eval [where m = 53 and n = 9007181694753707])
       (simp_all add: round_even_def Math_PI_def)
  have t2:
    "js_mul (Num (9007181694753707 / 9007199254740992)) (Num 1)
       = Num (9007181694753707 / 9007199254740992)"
    unfolding js_mul_Num
    by (rule rd_eval [where m = 53 and n = 9007181694753707])
       (simp_all add: round_even_def Math_PI_def)
  have a:
    "js_add
       (Num (4603245307134343 / 2361183241434822606848))
       (Num (9007181694753707 / 9007199254740992))
       = Num (4503599627370497 / 4503599627370496)"
    unfolding js_add_Num
    by (rule rd_eval [where m = 52 and n = 4503599627370497])
       (simp_all add: round_even_def Math_PI_def)
  have om:
    "js_sub (Num 1) (Num (4503599627370497 / 4503599627370496))
       = Num (- (1 / 4503599627370496))"
    unfolding js_sub_Num
    by (rule rd_eval [where m = 104 and n = "- 4503599627370496"])
       (simp_all add: round_even_def Math_PI_def)
  have sh:
    "js_sin table_engine (Num (- (6439128407179665 / 4611686018427387904)))
       = Num (- (1609781578736119 / 1152921504606846976))"
    by (simp add: js_sin_def table_engine_def)
  have sg: "js_sin table_engine (Num (884279719003555 / 562949953421312)) = Num 1"
    by (simp add: js_sin_def table_engine_def)
  have c1: "js_cos table_engine (Num (6439128407179665 / 4611686018427387904)) = Num (4503595237371535 / 4503599627370496)"
    by (simp add: js_cos_def table_engine_def)
  have c2: "js_cos table_engine (Num (- (6439128407179665 / 4611686018427387904))) = Num (4503595237371535 / 4503599627370496)"
    by (simp add: js_cos_def table_engine_def)
  have root: "js_sqrt (Num (- (1 / 4503599627370496))) = NaN"
    by (simp add: js_sqrt_def)
  have angle: "js_atan2 table_engine y NaN = NaN" for y
    by (simp add: js_atan2_def)
  have nan: "js_mul (Num r) NaN = NaN" for r
    by (simp add: js_mul_def)
  show ?thesis
    unfolding calculateDistance_def Let_def
    by (simp only: lat1 lat2 m1 phi1 m2 phi2 d0 d1 d2 h l0 l1 l2 g t1 cc t2 a om sh sg c1 c2 root angle nan)
qed

text \<open>
  On real numbers the formula gives, for these two points, half the circumference:
  \<open>a = sin\<^sup>2 \<phi> + cos\<^sup>2 \<phi> = 1\<close>, and the angle of \<open>(0, 1)\<close> is \<open>\<pi>/2\<close>.
\<close>

lemma antipodal_haversine: "haversine_spec 0.08 0 (- 0.08) 180 = 6371000 * pi"
proof -
  define p :: real where "p = 0.08 * pi / 180"
  have d: "(- p - p) / 2 = - p" by simp
  have l: "(radians 180 - radians 0) / 2 = pi / 2"
    by (simp add: radians_def)
  have r1: "radians 0.08 = p" and r2: "radians (- 0.08) = - p"
    by (simp_all add: radians_def p_def)
  have a: "(sin (- p))\<^sup>2 + cos p * cos (- p) * (sin (pi / 2))\<^sup>2 = 1"
    using sin_cos_squared_add [of p] by (simp add: power2_eq_square)
  have "haversine_spec 0.08 0 (- 0.08) 180 = 6371000 * (2 * atan2 (sqrt 1) (sqrt (1 - 1)))"
    unfolding haversine_spec_def r1 r2 d l a ..
  also have "\<dots> = 6371000 * pi" by (simp add: atan2_def)
  finally show ?thesis .
qed

text \<open>
  The sample engine is accurate to \<open>10\<^sup>-\<^sup>9\<close>: its sine differs from the real one
  only at two arguments, of which one lies in \<open>[-1, 1]\<close>, and there by less than that.
\<close>

lemma table_sine:
  "\<bar>- (1609781578736119 / 1152921504606846976)
      - sin (- (6439128407179665 / 4611686018427387904))\<bar>
   \<le> 1 / 10 ^ 9 * \<bar>sin (- (6439128407179665 / 4611686018427387904) :: real)\<bar>"
proof -
  define x :: real where "x = 6439128407179665 / 4611686018427387904"
  define t :: real where "t = 1609781578736119 / 1152921504606846976"
  have x0: "\<bar>x\<bar> = x" by (simp add: x_def)
  have "\<bar>sin x - (x - x ^ 3 / 6)\<bar> \<le> x ^ 5 / 120"
    using sin_near5 [of x] unfolding x0 .
  then have lo: "x - x ^ 3 / 6 - x ^ 5 / 120 \<le> sin x" and hi: "sin x \<le> x - x ^ 3 / 6 + x ^ 5 / 120"
    by linarith+
  have n1: "t - (x - x ^ 3 / 6 - x ^ 5 / 120) \<le> 1 / 10 ^ 9 * (x - x ^ 3 / 6 - x ^ 5 / 120)"
    unfolding x_def t_def by (simp add: power_divide)
  have n2: "(x - x ^ 3 / 6 + x ^ 5 / 120) - t \<le> 1 / 10 ^ 9 * (x - x ^ 3 / 6 - x ^ 5 / 120)"
    unfolding x_def t_def by (simp add: power_divide)
  have n3: "0 \<le> x - x ^ 3 / 6 - x ^ 5 / 120"
    unfolding x_def by (simp add: power_divide)
  from n3 lo have s0: "0 \<le> sin x" by linarith
  have "1 / 10 ^ 9 * (x - x ^ 3 / 6 - x ^ 5 / 120) \<le> 1 / 10 ^ 9 * sin x"
    using lo by (intro mult_left_mono) simp_all
  with n1 n2 lo hi have "\<bar>t - sin x\<bar> \<le> 1 / 10 ^ 9 * sin x" by linarith
  moreover have "\<bar>- t - sin (- x)\<bar> = \<bar>t - sin x\<bar>"
    by (simp add: abs_minus_commute)
  moreover have "\<bar>sin (- x)\<bar> = sin x" using s0 by simp
  ultimately have "\<bar>- t - sin (- x)\<bar> \<le> 1 / 10 ^ 9 * \<bar>sin (- x)\<bar>"
    by (simp only:)
  then show ?thesis unfolding x_def t_def .
qed

lemma table_engine_accurate: "accurate (1 / 10 ^ 9) table_engine"
proof -
  have s: "\<bar>engine_sin table_engine x - sin x\<bar> \<le> 1 / 10 ^ 9 * \<bar>sin x\<bar>" if "\<bar>x\<bar> \<le> 1" for x
  proof -
    consider "x = - (6439128407179665 / 4611686018427387904)"
      | "x \<noteq> - (6439128407179665 / 4611686018427387904)" "x \<noteq> 884279719003555 / 562949953421312"
      | "x = 884279719003555 / 562949953421312" by blast
    then show ?thesis
    proof cases
      case 1
      have "engine_sin table_engine (- (6439128407179665 / 4611686018427387904))
          = - (1609781578736119 / 1152921504606846976)"
        by (simp add: table_engine_def)
      then show ?thesis unfolding 1 using table_sine by (simp only:)
    next
      case 2
      then show ?thesis by (simp add: table_engine_def)
    next
      case 3
      with that show ?thesis by simp
    qed
  qed
  have c: "\<bar>engine_cos table_engine x\<bar> \<le> 1" for x
    by (simp add: table_engine_def)
  have a: "engine_atan2 table_engine y x = atan2 y x" for y x
    by (simp add: table_engine_def)
  show ?thesis
    unfolding accurate_def using s c by (simp add: a)
qed

subsection \<open>The effect and its callback\<close>

lemma effect_Some:
  "validation_effect e (Some u) w s =
     s\<lparr>distance := Some (calculateDistance e (lat u) (lng u) (lat w) (lng w)),
       isWithinGeofence :=
         Some (js_le (calculateDistance e (lat u) (lng u) (lat w) (lng w)) (radius w)),
       validation_calls := validation_calls s
         @ [js_le (calculateDistance e (lat u) (lng u) (lat w) (lng w)) (radius w)]\<rparr>"
  by (simp add: validation_effect_def Let_def)

lemma effect_None: "validation_effect e None w s = s"
  by (simp add: validation_effect_def)

lemma run_effects_append:
  "run_effects e (us @ vs) s = run_effects e vs (run_effects e us s)"
  by (induction e us s rule: run_effects.induct) simp_all

lemma run_effects_calls:
  "validation_calls (run_effects e us s) =
     validation_calls s @
       concat (map (\<lambda>(u, w). case u of
                       None \<Rightarrow> []
                     | Some c \<Rightarrow>
                         [js_le (calculateDistance e (lat c) (lng c) (lat w) (lng w)) (radius w)])
                 us)"
proof (induction e us s rule: run_effects.induct)
  case (1 e s)
  show ?case by simp
next
  case (2 e u w us s)
  show ?case
  proof (cases u)
    case None
    with 2 show ?thesis by (simp add: effect_None)
  next
    case (Some c)
    with 2 show ?thesis by (simp add: effect_Some)
  qed
qed


text \<open>
  C1 fails on the code for a site near the antipode of the user. Between the user at
  (0.08, 0) and the site at (-0.08, 180) with radius 30,000 km the distance that the
  code computes is NaN, so the stored verdict and the verdict passed to the callback
  are false; the haversine distance of the two points is \<open>6371000 \<sqdot> \<pi>\<close> metres, about
  20,015 km, which is within the radius.
\<close>

theorem C1_antipodal_site_verdict_false:
  "distance (validation_effect table_engine (Some \<lparr>lat = rd 0.08, lng = Num 0\<rparr>)
       \<lparr>lat = rd (- 0.08), lng = Num 180, radius = Num 30000000\<rparr> validator_init) = Some NaN
   \<and> isWithinGeofence (validation_effect table_engine (Some \<lparr>lat = rd 0.08, lng = Num 0\<rparr>)
       \<lparr>lat = rd (- 0.08), lng = Num 180, radius = Num 30000000\<rparr> validator_init) = Some False
   \<and> last_verdict (validation_effect table_engine (Some \<lparr>lat = rd 0.08, lng = Num 0\<rparr>)
       \<lparr>lat = rd (- 0.08), lng = Num 180, radius = Num 30000000\<rparr> validator_init) = Some False
   \<and> haversine_spec 0.08 0 (- 0.08) 180 = 6371000 * pi
   \<and> 6371000 * pi \<le> 30000000"
proof -
  let ?t = "validation_effect table_engine (Some \<lparr>lat = rd 0.08, lng = Num 0\<rparr>)
       \<lparr>lat = rd (- 0.08), lng = Num 180, radius = Num 30000000\<rparr> validator_init"
  have le: "js_le NaN r = False" for r by (simp add: js_le_def)
  have t: "?t = validator_init\<lparr>distance := Some NaN, isWithinGeofence := Some False,
                              validation_calls := validation_calls validator_init @ [False]\<rparr>"
    by (simp only: effect_Some coord.select_convs work_location.select_convs
        antipodal_distance le)
  have c1: "distance ?t = Some NaN" unfolding t by simp
  have c2: "isWithinGeofence ?t = Some False" unfolding t by simp
  have c3: "last_verdict ?t = Some False"
    unfolding t by (simp add: last_verdict_def validator_init_def)
  have "pi < 4" by (rule pi_less_4)
  then have c5: "6371000 * pi \<le> 30000000" by simp
  show ?thesis by (intro conjI c1 c2 c3 antipodal_haversine c5)
qed




text \<open>
  C6. While the user location is absent the validator reports neither verdict: it
  renders the waiting card whatever its state, the effect does not invoke the
  callback, and a validator that has only seen absent locations holds no verdict and
  no distance.
\<close>

theorem C6_absent_location_reports_no_verdict:
  "render_validator None w s = GettingLocation
   \<and> validation_calls (validation_effect e None w s) = validation_calls s
   \<and> isWithinGeofence (run_effects e (map (Pair None) ws) validator_init) = None
   \<and> distance (run_effects e (map (Pair None) ws) validator_init) = None
   \<and> last_verdict (run_effects e (map (Pair None) ws) validator_init) = None"
proof -
  have "run_effects e (map (Pair None) ws) t = t" for t
    by (induction ws) (simp_all add: effect_None)
  then show ?thesis
    by (simp add: render_validator_def effect_None validator_init_def last_verdict_def)
qed

text \<open>
  C10. The effect invokes the callback once for each update with a present location
  and never for an update with an absent one, which changes nothing; when the
  location becomes absent after a verdict was reported, the last verdict delivered to
  the caller, and the stored one, stay as they were.
\<close>

theorem C10_callback_only_with_location:
  "validation_effect e None w s = s
   \<and> validation_calls (run_effects e us s) =
       validation_calls s @
         concat (map (\<lambda>(u, w). case u of
                         None \<Rightarrow> []
                       | Some c \<Rightarrow>
                           [js_le (calculateDistance e (lat c) (lng c) (lat w) (lng w))
                              (radius w)])
                   us)
   \<and> last_verdict (run_effects e (us @ [(None, w)]) s) = last_verdict (run_effects e us s)
   \<and> last_verdict (validation_effect e None w' (validation_effect e (Some u) w s))
       = Some (js_le (calculateDistance e (lat u) (lng u) (lat w) (lng w)) (radius w))
   \<and> isWithinGeofence (validation_effect e None w' (validation_effect e (Some u) w s))
       = Some (js_le (calculateDistance e (lat u) (lng u) (lat w) (lng w)) (radius w))"
  by (simp add: effect_None run_effects_calls run_effects_append effect_Some last_verdict_def)

section \<open>Properties of the capture flow\<close>

subsection \<open>Capture\<close>

lemma stop_calls_append: "stop_calls (es @ fs) = stop_calls es @ stop_calls fs"
  by (induction es rule: stop_calls.induct) simp_all

lemma stop_calls_TrackStopped: "stop_calls (map TrackStopped ts) = ts"
  by (induction ts) simp_all

lemma events_stopCamera:
  "events (stopCamera s) =
     events s @ (case streamRef s of None \<Rightarrow> [] | Some stream \<Rightarrow> map TrackStopped stream)"
  by (simp add: stopCamera_def split: option.split)

lemma stopCamera_fields:
  "isCapturing (stopCamera s) = False"
  "streamRef (stopCamera s) = None"
  "capturedImage (stopCamera s) = capturedImage s"
  "location (stopCamera s) = location s"
  "error (stopCamera s) = error s"
  "isProcessing (stopCamera s) = isProcessing s"
  by (simp_all add: stopCamera_def split: option.split)

lemma location_precedes_frame_stops:
  "location_precedes_frame b (map TrackStopped ts) = True"
  by (induction ts) simp_all

lemma added_events_append: "events t = events s @ es \<Longrightarrow> added_events s t = es"
  by (simp add: added_events_def)

lemma capturePhoto_unmounted: "capturePhoto False answer canvas s = s"
  by (simp add: capturePhoto_def)

lemma capturePhoto_failed:
  "capturePhoto True NoGeolocation canvas s =
     s\<lparr>error := Some ''Failed to capture photo or get location. Please try again.''\<rparr>"
  "capturePhoto True PositionError canvas s =
     s\<lparr>error := Some ''Failed to capture photo or get location. Please try again.''\<rparr>"
  by (simp_all add: capturePhoto_def getCurrentLocation_def)

lemma capturePhoto_resolved:
  "capturePhoto True (Position la lo) CanvasThrows s =
     s\<lparr>location := Some \<lparr>lat = la, lng = lo\<rparr>,
       events := events s @ [LocationResolved \<lparr>lat = la, lng = lo\<rparr>],
       error := Some ''Failed to capture photo or get location. Please try again.''\<rparr>"
  "capturePhoto True (Position la lo) NoContext s =
     s\<lparr>location := Some \<lparr>lat = la, lng = lo\<rparr>,
       events := events s @ [LocationResolved \<lparr>lat = la, lng = lo\<rparr>]\<rparr>"
  "capturePhoto True (Position la lo) (Frame img) s =
     stopCamera (s\<lparr>location := Some \<lparr>lat = la, lng = lo\<rparr>,
                   capturedImage := Some img,
                   events := events s @ [LocationResolved \<lparr>lat = la, lng = lo\<rparr>,
                                         FrameRasterized img]\<rparr>)"
  by (simp_all add: capturePhoto_def getCurrentLocation_def Let_def)

text \<open>What one call of \<open>capturePhoto\<close> does to the outside, in order.\<close>

lemma capturePhoto_events:
  "events (capturePhoto refs answer canvas s) = events s @
     (if \<not> refs then []
      else case answer of
        Position la lo \<Rightarrow>
          (case canvas of
             Frame img \<Rightarrow>
               [LocationResolved \<lparr>lat = la, lng = lo\<rparr>, FrameRasterized img]
                 @ (case streamRef s of None \<Rightarrow> [] | Some stream \<Rightarrow> map TrackStopped stream)
           | _ \<Rightarrow> [LocationResolved \<lparr>lat = la, lng = lo\<rparr>])
      | _ \<Rightarrow> [])"
proof (cases refs)
  case False
  then show ?thesis by (simp add: capturePhoto_unmounted)
next
  case True
  then show ?thesis
    by (cases answer; cases canvas)
       (simp_all add: capturePhoto_failed capturePhoto_resolved events_stopCamera)
qed

lemma capturePhoto_order:
  "location_precedes_frame False (added_events s (capturePhoto refs answer canvas s))"
proof -
  have "location_precedes_frame False
     (if \<not> refs then []
      else case answer of
        Position la lo \<Rightarrow>
          (case canvas of
             Frame img \<Rightarrow>
               [LocationResolved \<lparr>lat = la, lng = lo\<rparr>, FrameRasterized img]
                 @ (case streamRef s of None \<Rightarrow> [] | Some stream \<Rightarrow> map TrackStopped stream)
           | _ \<Rightarrow> [LocationResolved \<lparr>lat = la, lng = lo\<rparr>])
      | _ \<Rightarrow> [])"
    by (simp add: location_precedes_frame_stops
        split: geolocation_answer.split canvas_answer.split option.split)
  then show ?thesis
    by (simp only: added_events_append [OF capturePhoto_events])
qed

lemma capturePhoto_image:
  "capturedImage (capturePhoto refs answer canvas s) = capturedImage s
   \<or> (\<exists>la lo img. refs \<and> answer = Position la lo \<and> canvas = Frame img
        \<and> capturedImage (capturePhoto refs answer canvas s) = Some img
        \<and> location (capturePhoto refs answer canvas s) = Some \<lparr>lat = la, lng = lo\<rparr>)"
proof (cases refs)
  case False
  then show ?thesis by (simp add: capturePhoto_unmounted)
next
  case True
  then show ?thesis
    by (cases answer; cases canvas)
       (simp_all add: capturePhoto_failed capturePhoto_resolved stopCamera_fields)
qed

lemma capturePhoto_failed_image:
  "capturedImage (capturePhoto refs NoGeolocation canvas s) = capturedImage s"
  "capturedImage (capturePhoto refs PositionError canvas s) = capturedImage s"
  by (cases refs; simp add: capturePhoto_unmounted capturePhoto_failed)+

text \<open>
  What holds of every call: a frame is rasterized only after the location has been
  resolved, and a failed location request sets the error message and nothing else.
\<close>

lemma capturePhoto_location_first:
  "location_precedes_frame False (added_events s (capturePhoto refs answer canvas s))
   \<and> capturePhoto True NoGeolocation canvas s =
       s\<lparr>error := Some ''Failed to capture photo or get location. Please try again.''\<rparr>
   \<and> capturePhoto True PositionError canvas s =
       s\<lparr>error := Some ''Failed to capture photo or get location. Please try again.''\<rparr>"
  using capturePhoto_order [of s refs answer canvas] by (simp add: capturePhoto_failed)


subsection \<open>Confirmation\<close>

lemma confirmCapture_resume_failed:
  "confirmCapture_resume StorageError held s =
     s\<lparr>error := Some ''Failed to process selfie. Please try again.'', isProcessing := False\<rparr>"
  by (simp add: confirmCapture_resume_def uploadSelfie_def)

lemma confirmCapture_failed:
  "confirmCapture StorageError s =
     (if capturedImage s \<noteq> None \<and> location s \<noteq> None
      then s\<lparr>isProcessing := False,
             error := Some ''Failed to process selfie. Please try again.''\<rparr>
      else s)"
  by (auto simp: confirmCapture_def confirmCapture_begin_def confirmCapture_resume_failed
      split: option.split)

lemma confirmCapture_failed_fields:
  "capturedImage (confirmCapture StorageError s) = capturedImage s"
  "location (confirmCapture StorageError s) = location s"
  "events (confirmCapture StorageError s) = events s"
  "streamRef (confirmCapture StorageError s) = streamRef s"
  "isCapturing (confirmCapture StorageError s) = isCapturing s"
  by (simp_all add: confirmCapture_failed)

lemma confirmCapture_failed_repeatedly:
  "capturedImage (((confirmCapture StorageError) ^^ n) s) = capturedImage s
   \<and> location (((confirmCapture StorageError) ^^ n) s) = location s
   \<and> events (((confirmCapture StorageError) ^^ n) s) = events s"
  by (induction n) (simp_all add: confirmCapture_failed_fields)

lemma confirmCapture_stored:
  "capturedImage s = Some img \<Longrightarrow> location s = Some loc \<Longrightarrow>
   confirmCapture (Stored url) s =
     s\<lparr>isProcessing := False, events := events s @ [OnSuccess url loc, OnClose],
       capturedImage := None, location := None\<rparr>"
  by (simp add: confirmCapture_def confirmCapture_begin_def confirmCapture_resume_def
      uploadSelfie_def)

text \<open>
  C7. When the upload fails during confirmation, the captured image and the resolved
  coordinate stay as they were, and nothing is delivered to the caller; this holds
  for the part of the call after the upload whatever ran in between, and for any
  number of failed confirmations in a row, after which a successful confirmation
  delivers the URL with the very coordinate that was resolved at capture. Retake and
  cancel discard both.
\<close>

theorem C7_upload_failure_keeps_image_and_coordinate:
  "capturedImage (confirmCapture StorageError s) = capturedImage s
   \<and> location (confirmCapture StorageError s) = location s
   \<and> events (confirmCapture StorageError s) = events s
   \<and> capturedImage (confirmCapture_resume StorageError held s) = capturedImage s
   \<and> location (confirmCapture_resume StorageError held s) = location s
   \<and> capturedImage (((confirmCapture StorageError) ^^ n) s) = capturedImage s
   \<and> location (((confirmCapture StorageError) ^^ n) s) = location s
   \<and> (capturedImage s = Some img \<and> location s = Some loc \<longrightarrow>
        events (confirmCapture (Stored url) (((confirmCapture StorageError) ^^ n) s))
          = events s @ [OnSuccess url loc, OnClose])
   \<and> capturedImage (retakePhoto camera mounted s) = None
   \<and> location (retakePhoto camera mounted s) = None
   \<and> capturedImage (handleClose s) = None
   \<and> location (handleClose s) = None"
proof -
  have retry: "events (confirmCapture (Stored url) (((confirmCapture StorageError) ^^ n) s))
          = events s @ [OnSuccess url loc, OnClose]"
    if "capturedImage s = Some img" "location s = Some loc"
  proof -
    let ?t = "((confirmCapture StorageError) ^^ n) s"
    have "capturedImage ?t = Some img" "location ?t = Some loc" "events ?t = events s"
      using that confirmCapture_failed_repeatedly [of n s] by simp_all
    then show ?thesis by (simp add: confirmCapture_stored)
  qed
  have retake: "capturedImage (retakePhoto camera mounted s) = None
      \<and> location (retakePhoto camera mounted s) = None"
    by (cases camera) (simp_all add: retakePhoto_def startCamera_def Let_def)
  show ?thesis
    using retry retake confirmCapture_failed_repeatedly [of n s]
    by (simp add: confirmCapture_failed_fields confirmCapture_resume_failed handleClose_def
        Let_def stopCamera_fields)
qed

text \<open>
  A captured session: two failed confirmations, then a successful one.
\<close>

theorem C7_retry_witness:
  "capturedImage (capture_init\<lparr>capturedImage := Some ''data:image/jpeg;base64,AAAA'',
                               location := Some office\<rparr>)
     = Some ''data:image/jpeg;base64,AAAA''
   \<and> location (capture_init\<lparr>capturedImage := Some ''data:image/jpeg;base64,AAAA'',
                          location := Some office\<rparr>) = Some office
   \<and> events (confirmCapture (Stored ''https://x/img.jpg'')
        (((confirmCapture StorageError) ^^ 2)
           (capture_init\<lparr>capturedImage := Some ''data:image/jpeg;base64,AAAA'',
                          location := Some office\<rparr>)))
     = [OnSuccess ''https://x/img.jpg'' office, OnClose]"
  using C7_upload_failure_keeps_image_and_coordinate
    [of "capture_init\<lparr>capturedImage := Some ''data:image/jpeg;base64,AAAA'',
                          location := Some office\<rparr>"
        "(''data:image/jpeg;base64,AAAA'', office)" 2 "''data:image/jpeg;base64,AAAA''" office "''https://x/img.jpg''"]
  by (simp add: capture_init_def)

subsection \<open>Cancel\<close>

lemma handleClose_eq:
  "handleClose s =
     s\<lparr>isCapturing := False, capturedImage := None, location := None, error := None,
       streamRef := None,
       events := events s
         @ (case streamRef s of None \<Rightarrow> [] | Some stream \<Rightarrow> map TrackStopped stream)
         @ [OnClose]\<rparr>"
  by (simp add: handleClose_def stopCamera_def Let_def split: option.split)

text \<open>
  What cancel does in every state: the session is idle afterwards, and the tracks of
  the stream held in \<open>streamRef\<close> are stopped once each.
\<close>

lemma handleClose_idle:
  "shows_start_card (handleClose s)
   \<and> \<not> shows_live_preview (handleClose s)
   \<and> \<not> shows_captured (handleClose s)
   \<and> location (handleClose s) = None
   \<and> error (handleClose s) = None
   \<and> streamRef (handleClose s) = None
   \<and> stop_calls (added_events s (handleClose s)) =
        (case streamRef s of None \<Rightarrow> [] | Some stream \<Rightarrow> stream)"
proof -
  have a: "added_events s (handleClose s) =
        (case streamRef s of None \<Rightarrow> [] | Some stream \<Rightarrow> map TrackStopped stream) @ [OnClose]"
    by (rule added_events_append) (simp add: handleClose_eq)
  show ?thesis
    unfolding a
    by (simp add: handleClose_eq shows_start_card_def shows_live_preview_def shows_captured_def
        stop_calls_append stop_calls_TrackStopped split: option.split)
qed

text \<open>
  C9 fails on the code for the stream that \<open>startCamera\<close> has been handed. The
  \<open>video\<close> element is rendered only while \<open>isCapturing\<close> holds, so when Start Camera is
  pressed in the idle session it is not mounted: the stream that arrives is kept
  neither in the element nor in \<open>streamRef\<close>, the preview does not start, and a cancel
  stops no track; the track of that stream stays live.
\<close>

theorem C9_cancel_leaves_acquired_stream_live:
  "streamRef (startCamera (CameraStream [0]) (isCapturing capture_init) capture_init) = None
   \<and> isCapturing (startCamera (CameraStream [0]) (isCapturing capture_init) capture_init) = False
   \<and> events (handleClose (startCamera (CameraStream [0]) (isCapturing capture_init) capture_init))
       = [StreamAcquired [0], OnClose]
   \<and> stop_calls
        (events (handleClose (startCamera (CameraStream [0]) (isCapturing capture_init) capture_init)))
       = []
   \<and> live_tracks
        (events (handleClose (startCamera (CameraStream [0]) (isCapturing capture_init) capture_init)))
       = [0]
   \<and> shows_start_card
        (handleClose (startCamera (CameraStream [0]) (isCapturing capture_init) capture_init))"
  by (simp add: startCamera_def capture_init_def handleClose_eq Let_def live_tracks_def
      shows_start_card_def)

section \<open>Properties of the attendance recorder\<close>

subsection \<open>The location text\<close>

text \<open>
  The text that the handler builds for a location begins with the letter \<open>P\<close>, which
  begins neither a parenthesis nor a number: it is not valid for a \<open>POINT\<close> column,
  whatever the coordinates and their rendering.
\<close>

lemma point_in_handler_text: "point_in (CHR ''P'' # t) = None"
  by (simp add: point_in_def float8_in_def sign_in_def blank_def word_nan_def
      word_inf_def word_infinity_def decimal_in_def is_digit_def exponent_in_def)

text \<open>The syntax of the type itself is read: \<open>(-74,40)\<close> is the point of the office.\<close>

lemma rd_74: "rd (- 74) = Num (- 74)"
  by (rule rd_eval [where m = 46 and n = "- 5207287069147136"]) (simp_all add: round_even_def)

lemma rd_40: "rd 40 = Num 40"
  by (rule rd_eval [where m = 47 and n = 5629499534213120]) (simp_all add: round_even_def)

lemma point_in_office: "point_in ''(-74,40)'' = Some (Point (Num (- 74)) (Num 40))"
  by (simp add: point_in_def float8_in_def sign_in_def blank_def word_nan_def
      word_inf_def word_infinity_def decimal_in_def is_digit_def exponent_in_def
      digits_value_def digit_value_def rd_74 rd_40)

subsection \<open>The two writes\<close>

lemma db_loadAttendanceData: "db (loadAttendanceData w pid s) = db s"
  by (simp add: loadAttendanceData_def Let_def)

lemma clockIn_eq:
  "clockIn w pid url loc s =
     s\<lparr>captureAction := Clock_in, showSelfieCapture := True,
       sent := sent s @
         [Upsert OnPrimaryKey
            \<lparr>new_user_id = pid, new_date = iso_date (instant_today w),
             new_clock_in = instant_now w, new_status = Present, new_selfie_url = url,
             new_clock_in_location =
               ''POINT('' @ number_text w (lng loc) @ '' '' @ number_text w (lat loc) @ '')''\<rparr>]\<rparr>"
  by (simp add: clockIn_def handleClockIn_def handleSelfieSuccess_def Let_def store_upsert_def
      point_in_handler_text)

lemma clockOut_eq:
  "clockOut w pid url loc s =
     (case todayRecord s of
        None \<Rightarrow> s\<lparr>captureAction := Clock_out, showSelfieCapture := True\<rparr>
      | Some held \<Rightarrow>
          s\<lparr>captureAction := Clock_out, showSelfieCapture := True,
            sent := sent s @
              [UpdateById (row_id held)
                 \<lparr>new_clock_out = instant_now w,
                  new_clock_out_location =
                    ''POINT('' @ number_text w (lng loc) @ '' '' @ number_text w (lat loc)
                      @ '')''\<rparr>]\<rparr>)"
  by (simp add: clockOut_def handleClockOut_def handleSelfieSuccess_def Let_def store_update_def
      point_in_handler_text split: option.split)

lemma iso_dates:
  "iso_date ''2024-01-01T17:00:00.000Z'' = ''2024-01-01''"
  "iso_date ''2024-01-02T08:00:00.000Z'' = ''2024-01-02''"
  by (simp_all add: iso_date_def)

lemma jan1_view:
  "loadAttendanceData (jan1_evening nt) ''u1'' (view_opened [row_jan1]) =
     \<lparr>db = [row_jan1], sent = [], attendanceRecords = [row_jan1],
      todayRecord = Some row_jan1, loading = False, showSelfieCapture = False,
      captureAction = Clock_in\<rparr>"
  by (simp add: loadAttendanceData_def store_select_def view_opened_def jan1_evening_def
      row_jan1_def iso_dates Let_def)

lemma empty_view:
  "loadAttendanceData (jan1_evening nt) ''u1'' (view_opened []) =
     \<lparr>db = [], sent = [], attendanceRecords = [], todayRecord = None, loading = False,
      showSelfieCapture = False, captureAction = Clock_in\<rparr>"
  by (simp add: loadAttendanceData_def store_select_def view_opened_def jan1_evening_def
      Let_def)


text \<open>
  C5 fails on the code: a second clock-in on the same day does not succeed and
  replaces nothing. The store refuses the request, because the location text is not
  valid for the column, so the table keeps its rows in every case; the record of
  \<open>u1\<close> for 1 January keeps the clock-in of nine o'clock and the first selfie. With
  the location in the syntax of the type the request is still refused: the call
  names no conflict target, so it is an insert that breaks \<open>UNIQUE(user_id, date)\<close>;
  only on the target \<open>(user_id, date)\<close> are the values replaced.
\<close>

theorem C5_second_clock_in_is_refused:
  "db (clockIn w pid url loc s) = db s
   \<and> sent (clockIn (jan1_evening nt) ''u1'' ''https://x/second.jpg'' office
        (loadAttendanceData (jan1_evening nt) ''u1'' (view_opened [row_jan1])))
      = [Upsert OnPrimaryKey
           \<lparr>new_user_id = ''u1'', new_date = ''2024-01-01'',
            new_clock_in = ''2024-01-01T17:00:00.000Z'', new_status = Present,
            new_selfie_url = ''https://x/second.jpg'',
            new_clock_in_location =
              ''POINT('' @ nt (Num (- 74)) @ '' '' @ nt (Num 40) @ '')''\<rparr>]
   \<and> db (clockIn (jan1_evening nt) ''u1'' ''https://x/second.jpg'' office
        (loadAttendanceData (jan1_evening nt) ''u1'' (view_opened [row_jan1])))
      = [row_jan1]
   \<and> store_upsert True OnPrimaryKey
        \<lparr>new_user_id = ''u1'', new_date = ''2024-01-01'',
         new_clock_in = ''2024-01-01T17:00:00.000Z'', new_status = Present,
         new_selfie_url = ''https://x/second.jpg'', new_clock_in_location = ''(-74,40)''\<rparr>
        [row_jan1]
      = Inl UniqueViolation
   \<and> store_upsert True OnUserAndDate
        \<lparr>new_user_id = ''u1'', new_date = ''2024-01-01'',
         new_clock_in = ''2024-01-01T17:00:00.000Z'', new_status = Present,
         new_selfie_url = ''https://x/second.jpg'', new_clock_in_location = ''(-74,40)''\<rparr>
        [row_jan1]
      = Inr (row_jan1\<lparr>clock_in := Some ''2024-01-01T17:00:00.000Z'',
                      selfie_url := Some ''https://x/second.jpg''\<rparr>,
             [row_jan1\<lparr>clock_in := Some ''2024-01-01T17:00:00.000Z'',
                       selfie_url := Some ''https://x/second.jpg''\<rparr>])"
  unfolding jan1_view clockIn_eq
  by (simp add: jan1_evening_def iso_dates row_jan1_def office_def store_upsert_def
      point_in_office set_clock_in_def)

text \<open>
  C8 fails on the code in its scenario. On an empty table, the clock-in of \<open>u1\<close>
  sends its columns with the status \<open>present\<close>, and the store refuses the request,
  because the location text is not valid for the column; the view holds no record
  for today afterwards, so the clock-out that follows returns at its guard and sends
  nothing. The table holds no record of \<open>u1\<close>, where the claim says one record with
  both timestamps and the status \<open>present\<close>.
\<close>

theorem C8_clock_in_then_clock_out_leaves_no_record:
  "sent (clockIn (jan1_evening nt) ''u1'' ''https://x/img.jpg'' office
        (loadAttendanceData (jan1_evening nt) ''u1'' (view_opened [])))
      = [Upsert OnPrimaryKey
           \<lparr>new_user_id = ''u1'', new_date = ''2024-01-01'',
            new_clock_in = ''2024-01-01T17:00:00.000Z'', new_status = Present,
            new_selfie_url = ''https://x/img.jpg'',
            new_clock_in_location =
              ''POINT('' @ nt (Num (- 74)) @ '' '' @ nt (Num 40) @ '')''\<rparr>]
   \<and> todayRecord (clockIn (jan1_evening nt) ''u1'' ''https://x/img.jpg'' office
        (loadAttendanceData (jan1_evening nt) ''u1'' (view_opened []))) = None
   \<and> sent (clockOut (jan1_evening nt) ''u1'' [] office
        (clockIn (jan1_evening nt) ''u1'' ''https://x/img.jpg'' office
           (loadAttendanceData (jan1_evening nt) ''u1'' (view_opened []))))
      = sent (clockIn (jan1_evening nt) ''u1'' ''https://x/img.jpg'' office
           (loadAttendanceData (jan1_evening nt) ''u1'' (view_opened [])))
   \<and> db (clockOut (jan1_evening nt) ''u1'' [] office
        (clockIn (jan1_evening nt) ''u1'' ''https://x/img.jpg'' office
           (loadAttendanceData (jan1_evening nt) ''u1'' (view_opened [])))) = []
   \<and> rows_of ''u1'' ''2024-01-01''
        (db (clockOut (jan1_evening nt) ''u1'' [] office
          (clockIn (jan1_evening nt) ''u1'' ''https://x/img.jpg'' office
             (loadAttendanceData (jan1_evening nt) ''u1'' (view_opened []))))) = []"
  unfolding empty_view clockIn_eq
  by (simp add: clockOut_eq jan1_evening_def iso_dates office_def rows_of_def)

end
